theory Spec2Isabelle
  imports Main
begin

section \<open>Values\<close>

text \<open>
  The library is generic in the type \<open>T\<close> of the values of a stream, and errors have
  the type \<open>any\<close>. Both are modelled by one type of JavaScript values, with the
  truthiness test that \<open>if (x)\<close> applies to them.
\<close>

datatype jsval =
    Undefined
  | Num int
  | Str string
  | ErrorObj string
  | FunctionRef string
  | AsyncIteratorDone

fun truthy :: "jsval \<Rightarrow> bool" where
  "truthy Undefined = False"
| "truthy (Num k) = (k \<noteq> 0)"
| "truthy (Str s) = (s \<noteq> [])"
| "truthy (ErrorObj m) = True"
| "truthy (FunctionRef f) = True"
| "truthy AsyncIteratorDone = True"

definition ERROR_TIMEOUT :: jsval where
  "ERROR_TIMEOUT = ErrorObj ''Observable timed out.''"

section \<open>Closures\<close>

text \<open>
  Objects live in stores of the world and are referred to by their index: an
  observable by an \<open>oid\<close>, a promise by a \<open>pid\<close>. Every closure the library
  builds is a constructor holding what the closure captures.
\<close>

type_synonym oid = nat
type_synonym pid = nat

text \<open>
  Function values handed to \<open>addEventListener\<close> and \<open>removeEventListener\<close>:
  \<open>TriggerFn o\<close> is the \<open>trigger\<close> function of observable \<open>o\<close>, and
  \<open>TriggerArrow o\<close> is the arrow function \<open>cb => trigger(cb)\<close> around it.
\<close>

datatype fnref = TriggerFn oid | TriggerArrow oid

text \<open>
  The actions given to \<open>then\<close>: the library's own
  \<open>() => element.removeEventListener(event, trigger)\<close>, and for an action of a
  caller one that returns a value and one that throws.
\<close>

datatype action =
    RemoveEventListener nat string fnref
  | ReturnAction jsval
  | ThrowAction jsval

text \<open>
  The listener that the executor of \<open>firstN\<close> returns,
  \<open>(obj) => { if (n-- === 0) unsubscribe(); }\<close>: the cell of \<open>n\<close>, and the
  source, index and derived observable that \<open>unsubscribe\<close> captures.
\<close>

datatype inner_listener = FirstNListener nat oid nat oid

datatype listener =
    UserListener "jsval \<Rightarrow> jsval option" nat
    \<comment> \<open>\<open>o => { if (...) throw e; else numbers.push(o); }\<close>, as the tests write it\<close>
  | MapListener "jsval \<Rightarrow> jsval" oid
    \<comment> \<open>\<open>obj => trigger(mapper(obj))\<close>\<close>
  | FilterListener "jsval \<Rightarrow> bool" oid
    \<comment> \<open>\<open>obj => { if (predicate(obj)) trigger(obj); }\<close>\<close>
  | ReduceListener "jsval \<Rightarrow> jsval \<Rightarrow> jsval" nat oid
    \<comment> \<open>\<open>obj => { initialValue = reducer(initialValue, obj); trigger(initialValue); }\<close>\<close>
  | PreTrigger oid "inner_listener option"
    \<comment> \<open>\<open>preTrigger\<close> of \<open>subscribe\<close>\<close>
  | IteratorListener nat
    \<comment> \<open>the listener of the constructor of \<open>ObservableAsyncIterator\<close>\<close>
  | EmptyListener
    \<comment> \<open>\<open>() => { }\<close>\<close>

datatype resolver =
    PromiseResolve pid
  | UnsubscribeDone oid nat oid
  | ThenResolve pid action
    \<comment> \<open>\<open>() => resolve(action())\<close>\<close>

datatype rejecter =
    PromiseReject pid
  | UnsubscribeFail oid nat oid

record CallbackItem =
  listener :: listener
  resolve :: resolver
  reject :: rejecter

text \<open>
  \<open>_callbacks\<close> is initialised to one array object and only ever reassigned to
  \<open>undefined\<close>. The array object outlives that assignment while a \<open>forEach\<close>
  over it is still running, so the model keeps the array and whether the field still
  refers to it.
\<close>

record Observable =
  callbacks_array :: "CallbackItem option list"
  callbacks_defined :: bool
  dispose :: "oid option"
    \<comment> \<open>the \<open>dispose\<close> property of a Subscription: the \<open>done\<close> of that observable\<close>

section \<open>The host: promises, microtasks, timers, event targets\<close>

datatype pstate = Pending | Fulfilled jsval | Rejected jsval

datatype handler =
    DoneHandler oid
    \<comment> \<open>\<open>.then(done)\<close>\<close>
  | FailHandler oid
    \<comment> \<open>\<open>.catch(fail)\<close>\<close>
  | IteratorDone nat
  | IteratorFail nat

record reaction =
  on_fulfilled :: "handler option"
  on_rejected :: "handler option"
  derived :: pid

record promise =
  p_state :: pstate
  p_reactions :: "reaction list"

record ObservableAsyncIterator =
  demanded :: "pid list"
  queued :: "jsval list"
  done_promise :: "pid option"

record world =
  observables :: "Observable list"
  promises :: "promise list"
  microtasks :: "(reaction \<times> pstate) list"
  vars :: "jsval list"
  arrays :: "jsval list list"
  iterators :: "ObservableAsyncIterator list"
  timers :: "(nat \<times> rejecter \<times> jsval) list"
  clock :: nat
  elements :: "(string \<times> fnref) list list"

definition world0 :: world where
  "world0 = \<lparr>observables = [], promises = [], microtasks = [], vars = [], arrays = [],
     iterators = [], timers = [], clock = 0, elements = []\<rparr>"

definition new_promise :: "pstate \<Rightarrow> world \<Rightarrow> pid \<times> world" where
  "new_promise st w =
     (length (promises w),
      w\<lparr>promises := promises w @ [\<lparr>p_state = st, p_reactions = []\<rparr>]\<rparr>)"

text \<open>
  Settling a pending promise queues one microtask for each reaction registered on
  it; settling a settled promise does nothing.
\<close>

definition settle :: "pid \<Rightarrow> pstate \<Rightarrow> world \<Rightarrow> world" where
  "settle p st w =
     (if p_state (promises w ! p) = Pending then
        w\<lparr>promises := (promises w)[p := \<lparr>p_state = st, p_reactions = []\<rparr>],
          microtasks := microtasks w @ map (\<lambda>r. (r, st)) (p_reactions (promises w ! p))\<rparr>
      else w)"

definition promise_resolve :: "pid \<Rightarrow> jsval \<Rightarrow> world \<Rightarrow> world" where
  "promise_resolve p v = settle p (Fulfilled v)"

definition promise_reject :: "pid \<Rightarrow> jsval \<Rightarrow> world \<Rightarrow> world" where
  "promise_reject p e = settle p (Rejected e)"

text \<open>\<open>p.then(onFulfilled, onRejected)\<close>; \<open>p.catch(h)\<close> is \<open>p.then(undefined, h)\<close>.\<close>

definition promise_then ::
  "pid \<Rightarrow> handler option \<Rightarrow> handler option \<Rightarrow> world \<Rightarrow> pid \<times> world" where
  "promise_then p onF onR w =
     (let (q, w1) = new_promise Pending w;
          r = \<lparr>on_fulfilled = onF, on_rejected = onR, derived = q\<rparr>
      in case p_state (promises w1 ! p) of
           Pending \<Rightarrow>
             (q, w1\<lparr>promises := (promises w1)[p := (promises w1 ! p)
                       \<lparr>p_reactions := p_reactions (promises w1 ! p) @ [r]\<rparr>]\<rparr>)
         | st \<Rightarrow> (q, w1\<lparr>microtasks := microtasks w1 @ [(r, st)]\<rparr>))"

definition array_push :: "nat \<Rightarrow> jsval \<Rightarrow> world \<Rightarrow> world" where
  "array_push a obj w = w\<lparr>arrays := (arrays w)[a := arrays w ! a @ [obj]]\<rparr>"

definition set_var :: "nat \<Rightarrow> jsval \<Rightarrow> world \<Rightarrow> world" where
  "set_var c v w = w\<lparr>vars := (vars w)[c := v]\<rparr>"

definition new_var :: "jsval \<Rightarrow> world \<Rightarrow> nat \<times> world" where
  "new_var v w = (length (vars w), w\<lparr>vars := vars w @ [v]\<rparr>)"

text \<open>
  An event target keeps its listeners in the order they were added; adding a listener
  that is already there does nothing, and removing one that is not there does nothing.
\<close>

definition addEventListener :: "nat \<Rightarrow> string \<Rightarrow> fnref \<Rightarrow> world \<Rightarrow> world" where
  "addEventListener el ev f w =
     (if (ev, f) \<in> set (elements w ! el) then w
      else w\<lparr>elements := (elements w)[el := elements w ! el @ [(ev, f)]]\<rparr>)"

definition removeEventListener :: "nat \<Rightarrow> string \<Rightarrow> fnref \<Rightarrow> world \<Rightarrow> world" where
  "removeEventListener el ev f w =
     w\<lparr>elements := (elements w)[el := removeAll (ev, f) (elements w ! el)]\<rparr>"

text \<open>Calling an action: \<open>Inr\<close> the value it returns, \<open>Inl\<close> the value it throws.\<close>

fun run_action :: "action \<Rightarrow> world \<Rightarrow> (jsval + jsval) \<times> world" where
  "run_action (RemoveEventListener el ev f) w = (Inr Undefined, removeEventListener el ev f w)"
| "run_action (ReturnAction v) w = (Inr v, w)"
| "run_action (ThrowAction e) w = (Inl e, w)"

section \<open>Observable: the constructor's trigger, done and fail\<close>

definition set_callback :: "oid \<Rightarrow> nat \<Rightarrow> CallbackItem option \<Rightarrow> world \<Rightarrow> world" where
  "set_callback this idx v w =
     w\<lparr>observables := (observables w)[this := (observables w ! this)
        \<lparr>callbacks_array := (callbacks_array (observables w ! this))[idx := v]\<rparr>]\<rparr>"

definition callbacks_push :: "oid \<Rightarrow> CallbackItem \<Rightarrow> world \<Rightarrow> world" where
  "callbacks_push this cb w =
     w\<lparr>observables := (observables w)[this := (observables w ! this)
        \<lparr>callbacks_array := callbacks_array (observables w ! this) @ [Some cb]\<rparr>]\<rparr>"

definition callbacks_undefine :: "oid \<Rightarrow> world \<Rightarrow> world" where
  "callbacks_undefine this w =
     w\<lparr>observables := (observables w)[this := (observables w ! this)
        \<lparr>callbacks_defined := False\<rparr>]\<rparr>"

definition isDone :: "world \<Rightarrow> oid \<Rightarrow> bool" where
  "isDone w this = (\<not> callbacks_defined (observables w ! this))"

text \<open>
  \<open>unsubscribeOnly\<close> of \<open>subscribe\<close>: the test
  \<open>this._callbacks && this._callbacks[index]\<close>.
\<close>

definition subscribed :: "oid \<Rightarrow> nat \<Rightarrow> world \<Rightarrow> bool" where
  "subscribed this index w =
     (callbacks_defined (observables w ! this)
      \<and> index < length (callbacks_array (observables w ! this))
      \<and> callbacks_array (observables w ! this) ! index \<noteq> None)"

text \<open>
  The first argument bounds the depth of nested calls: \<open>None\<close> is a call chain that
  did not return within it. A listener returns the value it threw, if it threw, and so
  do \<open>done\<close> and the \<open>resolve\<close> of a slot: \<open>done\<close> calls \<open>d.resolve()\<close>
  with no \<open>try\<close> around it, so what the action of a \<open>then\<close> throws leaves the
  loop and \<open>done\<close> itself, before the slots after it are resolved and before
  \<open>_callbacks = undefined\<close>. \<open>trigger\<close> catches what a listener throws, and
  nothing on the path of \<open>fail\<close> throws.
\<close>

function (sequential) trigger :: "nat \<Rightarrow> oid \<Rightarrow> jsval \<Rightarrow> world \<Rightarrow> world option"
and call_listener :: "nat \<Rightarrow> listener \<Rightarrow> jsval \<Rightarrow> world \<Rightarrow> (jsval option \<times> world) option"
and done_sig :: "nat \<Rightarrow> oid \<Rightarrow> world \<Rightarrow> (jsval option \<times> world) option"
and call_resolve :: "nat \<Rightarrow> resolver \<Rightarrow> world \<Rightarrow> (jsval option \<times> world) option"
and fail_sig :: "nat \<Rightarrow> oid \<Rightarrow> jsval \<Rightarrow> world \<Rightarrow> world option"
and call_reject :: "nat \<Rightarrow> rejecter \<Rightarrow> jsval \<Rightarrow> world \<Rightarrow> world option"
where
  "trigger 0 this obj w = None"
| "trigger (Suc n) this obj w =
     (if callbacks_defined (observables w ! this) then
        fold (\<lambda>idx acc. case acc of
                None \<Rightarrow> None
              | Some w1 \<Rightarrow>
                  (case callbacks_array (observables w1 ! this) ! idx of
                     None \<Rightarrow> Some w1
                   | Some cb \<Rightarrow>
                       (case call_listener n (listener cb) obj w1 of
                          None \<Rightarrow> None
                        | Some (None, w2) \<Rightarrow> Some w2
                        | Some (Some e, w2) \<Rightarrow>
                            (case call_reject n (reject cb) e w2 of
                               None \<Rightarrow> None
                             | Some w3 \<Rightarrow>
                                 Some (if callbacks_defined (observables w3 ! this)
                                       then set_callback this idx None w3 else w3)))))
          [0..<length (callbacks_array (observables w ! this))] (Some w)
      else Some w)"
| "call_listener n (UserListener throws a) obj w =
     (case throws obj of
        Some e \<Rightarrow> Some (Some e, w)
      | None \<Rightarrow> Some (None, array_push a obj w))"
| "call_listener 0 (MapListener mapper d) obj w = None"
| "call_listener (Suc n) (MapListener mapper d) obj w =
     map_option (Pair None) (trigger n d (mapper obj) w)"
| "call_listener 0 (FilterListener predicate d) obj w = None"
| "call_listener (Suc n) (FilterListener predicate d) obj w =
     (if predicate obj then map_option (Pair None) (trigger n d obj w)
      else Some (None, w))"
| "call_listener 0 (ReduceListener reducer c d) obj w = None"
| "call_listener (Suc n) (ReduceListener reducer c d) obj w =
     (let w1 = set_var c (reducer (vars w ! c) obj) w
      in map_option (Pair None) (trigger n d (vars w1 ! c) w1))"
| "call_listener 0 (PreTrigger d inner) obj w = None"
| "call_listener (Suc n) (PreTrigger d inner) obj w =
     (case trigger n d obj w of
        None \<Rightarrow> None
      | Some w1 \<Rightarrow>
          (case inner of
             None \<Rightarrow> Some (None, w1)
           | Some (FirstNListener c src index d') \<Rightarrow>
               (case vars w1 ! c of
                  Num k \<Rightarrow>
                    (let w2 = set_var c (Num (k - 1)) w1
                     in if k = 0
                        then call_resolve n (UnsubscribeDone src index d') w2
                        else Some (None, w2))
                | _ \<Rightarrow> Some (None, w1))))"
| "call_listener n (IteratorListener it) obj w =
     (case demanded (iterators w ! it) of
        [] \<Rightarrow>
          Some (None, w\<lparr>iterators := (iterators w)[it := (iterators w ! it)
                   \<lparr>queued := queued (iterators w ! it) @ [obj]\<rparr>]\<rparr>)
      | p # ps \<Rightarrow>
          Some (None, promise_resolve p obj
                  (w\<lparr>iterators := (iterators w)[it := (iterators w ! it)\<lparr>demanded := ps\<rparr>]\<rparr>)))"
| "call_listener n EmptyListener obj w = Some (None, w)"
| "done_sig 0 this w = None"
| "done_sig (Suc n) this w =
     (case (if callbacks_defined (observables w ! this) then
              fold (\<lambda>idx acc. case acc of
                      None \<Rightarrow> None
                    | Some (Some e, w1) \<Rightarrow> Some (Some e, w1)
                    | Some (None, w1) \<Rightarrow>
                        (case callbacks_array (observables w1 ! this) ! idx of
                           None \<Rightarrow> Some (None, w1)
                         | Some d \<Rightarrow> call_resolve n (resolve d) w1))
                [0..<length (callbacks_array (observables w ! this))] (Some (None, w))
            else Some (None, w)) of
        None \<Rightarrow> None
      | Some (Some e, w') \<Rightarrow> Some (Some e, w')
      | Some (None, w') \<Rightarrow> Some (None, callbacks_undefine this w'))"
| "call_resolve n (PromiseResolve p) w = Some (None, promise_resolve p Undefined w)"
| "call_resolve 0 (UnsubscribeDone this index d) w = None"
| "call_resolve (Suc n) (UnsubscribeDone this index d) w =
     (if subscribed this index w then done_sig n d (set_callback this index None w)
      else Some (None, w))"
| "call_resolve n (ThenResolve p act) w =
     (case run_action act w of
        (Inl e, w1) \<Rightarrow> Some (Some e, w1)
      | (Inr v, w1) \<Rightarrow> Some (None, promise_resolve p v w1))"
| "fail_sig 0 this err w = None"
| "fail_sig (Suc n) this err w =
     (case (if callbacks_defined (observables w ! this) then
              fold (\<lambda>idx acc. case acc of
                      None \<Rightarrow> None
                    | Some w1 \<Rightarrow>
                        (case callbacks_array (observables w1 ! this) ! idx of
                           None \<Rightarrow> Some w1
                         | Some d \<Rightarrow> call_reject n (reject d) err w1))
                [0..<length (callbacks_array (observables w ! this))] (Some w)
            else Some w) of
        None \<Rightarrow> None
      | Some w' \<Rightarrow> Some (callbacks_undefine this w'))"
| "call_reject n (PromiseReject p) err w = Some (promise_reject p err w)"
| "call_reject 0 (UnsubscribeFail this index d) err w = None"
| "call_reject (Suc n) (UnsubscribeFail this index d) err w =
     (if subscribed this index w then fail_sig n d err (set_callback this index None w)
      else Some w)"
  by pat_completeness auto

termination
  by (relation "measure (\<lambda>x. case x of
        Inl (Inl (n, _)) \<Rightarrow> n
      | Inl (Inr (Inl (n, _))) \<Rightarrow> n
      | Inl (Inr (Inr (n, _))) \<Rightarrow> n
      | Inr (Inl (n, _)) \<Rightarrow> n
      | Inr (Inr (Inl (n, _))) \<Rightarrow> n
      | Inr (Inr (Inr (n, _))) \<Rightarrow> n)") auto

text \<open>
  The calls a producer makes on the three functions its executor received, in the
  order it makes them. A call that throws ends the sequence with what it threw.
\<close>

datatype producer_call = Trigger jsval | Done | Fail jsval

fun producer_step ::
  "nat \<Rightarrow> oid \<Rightarrow> producer_call \<Rightarrow> world \<Rightarrow> (jsval option \<times> world) option" where
  "producer_step n this (Trigger obj) w = map_option (Pair None) (trigger n this obj w)"
| "producer_step n this Done w = done_sig n this w"
| "producer_step n this (Fail err) w = map_option (Pair None) (fail_sig n this err w)"

fun producer_calls ::
  "nat \<Rightarrow> oid \<Rightarrow> producer_call list \<Rightarrow> world \<Rightarrow> (jsval option \<times> world) option" where
  "producer_calls n this [] w = Some (None, w)"
| "producer_calls n this (c # cs) w =
     (case producer_step n this c w of
        None \<Rightarrow> None
      | Some (Some e, w1) \<Rightarrow> Some (Some e, w1)
      | Some (None, w1) \<Rightarrow> producer_calls n this cs w1)"

section \<open>Microtasks\<close>

text \<open>
  The handlers given to \<open>then\<close> and \<open>catch\<close>. Each returns \<open>undefined\<close>,
  or throws: the result is the value thrown, if any.
\<close>

fun call_handler ::
  "nat \<Rightarrow> handler \<Rightarrow> jsval \<Rightarrow> world \<Rightarrow> (jsval option \<times> world) option" where
  "call_handler n (DoneHandler d) v w = done_sig n d w"
| "call_handler n (FailHandler d) v w = map_option (Pair None) (fail_sig n d v w)"
| "call_handler n (IteratorDone it) v w =
     (let (p, w1) = new_promise (Fulfilled AsyncIteratorDone) w;
          w2 = w1\<lparr>iterators := (iterators w1)[it := (iterators w1 ! it)\<lparr>done_promise := Some p\<rparr>]\<rparr>;
          w3 = fold (\<lambda>q. promise_resolve q AsyncIteratorDone) (demanded (iterators w2 ! it)) w2
      in Some (None,
               w3\<lparr>iterators := (iterators w3)[it := (iterators w3 ! it)\<lparr>demanded := []\<rparr>]\<rparr>))"
| "call_handler n (IteratorFail it) err w =
     (let (p, w1) = new_promise (Rejected err) w;
          w2 = w1\<lparr>iterators := (iterators w1)[it := (iterators w1 ! it)\<lparr>done_promise := Some p\<rparr>]\<rparr>;
          w3 = fold (\<lambda>q. promise_reject q err) (demanded (iterators w2 ! it)) w2
      in Some (None,
               w3\<lparr>iterators := (iterators w3)[it := (iterators w3 ! it)\<lparr>demanded := []\<rparr>]\<rparr>))"

text \<open>
  One reaction job: the handler for the state the promise settled in runs and its
  result resolves the derived promise, or what it throws rejects the derived promise;
  without a handler the state passes through.
\<close>

fun run_microtask :: "nat \<Rightarrow> reaction \<times> pstate \<Rightarrow> world \<Rightarrow> world option" where
  "run_microtask n (r, Fulfilled v) w =
     (case on_fulfilled r of
        None \<Rightarrow> Some (promise_resolve (derived r) v w)
      | Some h \<Rightarrow>
          (case call_handler n h v w of
             None \<Rightarrow> None
           | Some (None, w1) \<Rightarrow> Some (promise_resolve (derived r) Undefined w1)
           | Some (Some e, w1) \<Rightarrow> Some (promise_reject (derived r) e w1)))"
| "run_microtask n (r, Rejected e) w =
     (case on_rejected r of
        None \<Rightarrow> Some (promise_reject (derived r) e w)
      | Some h \<Rightarrow>
          (case call_handler n h e w of
             None \<Rightarrow> None
           | Some (None, w1) \<Rightarrow> Some (promise_resolve (derived r) Undefined w1)
           | Some (Some e', w1) \<Rightarrow> Some (promise_reject (derived r) e' w1)))"
| "run_microtask n (r, Pending) w = Some w"

text \<open>
  The microtask queue is drained after each task: at most \<open>k\<close> jobs, each with
  call depth \<open>n\<close>. \<open>None\<close> is a queue that did not empty.
\<close>

fun run_microtasks :: "nat \<Rightarrow> nat \<Rightarrow> world \<Rightarrow> world option" where
  "run_microtasks 0 n w = (if microtasks w = [] then Some w else None)"
| "run_microtasks (Suc k) n w =
     (case microtasks w of
        [] \<Rightarrow> Some w
      | t # ts \<Rightarrow>
          (case run_microtask n t (w\<lparr>microtasks := ts\<rparr>) of
             None \<Rightarrow> None
           | Some w1 \<Rightarrow> run_microtasks k n w1))"

section \<open>Observable: methods and factories\<close>

text \<open>The field initialiser \<open>_callbacks = []\<close> of a new object.\<close>

definition Observable_new :: "world \<Rightarrow> oid \<times> world" where
  "Observable_new w =
     (length (observables w),
      w\<lparr>observables := observables w @
           [\<lparr>callbacks_array = [], callbacks_defined = True, dispose = None\<rparr>]\<rparr>)"

definition forEach :: "oid \<Rightarrow> listener \<Rightarrow> world \<Rightarrow> pid \<times> world" where
  "forEach this each w =
     (if isDone w this then new_promise (Fulfilled Undefined) w
      else (let (p, w1) = new_promise Pending w
            in (p, callbacks_push this
                     \<lparr>listener = each, resolve = PromiseResolve p, reject = PromiseReject p\<rparr> w1)))"

definition map_observable :: "oid \<Rightarrow> (jsval \<Rightarrow> jsval) \<Rightarrow> world \<Rightarrow> oid \<times> world" where
  "map_observable this mapper w =
     (let (d, w1) = Observable_new w;
          (p, w2) = forEach this (MapListener mapper d) w1
      in (d, w2))"

definition filter_observable :: "oid \<Rightarrow> (jsval \<Rightarrow> bool) \<Rightarrow> world \<Rightarrow> oid \<times> world" where
  "filter_observable this predicate w =
     (let (d, w1) = Observable_new w;
          (p, w2) = forEach this (FilterListener predicate d) w1;
          (p2, w3) = promise_then p (Some (DoneHandler d)) None w2;
          (p3, w4) = promise_then p2 None (Some (FailHandler d)) w3
      in (d, w4))"

definition reduce ::
  "nat \<Rightarrow> oid \<Rightarrow> jsval \<Rightarrow> (jsval \<Rightarrow> jsval \<Rightarrow> jsval) \<Rightarrow> world \<Rightarrow> (oid \<times> world) option" where
  "reduce n this initialValue reducer w =
     (let (c, w0) = new_var initialValue w;
          (d, w1) = Observable_new w0
      in case trigger n d (vars w1 ! c) w1 of
           None \<Rightarrow> None
         | Some w2 \<Rightarrow>
             (let (p, w3) = forEach this (ReduceListener reducer c d) w2;
                  (p2, w4) = promise_then p (Some (DoneHandler d)) None w3;
                  (p3, w5) = promise_then p2 None (Some (FailHandler d)) w4
              in Some (d, w5)))"

text \<open>
  A constructor whose executor calls \<open>done()\<close> returns the new object (\<open>Inr\<close>)
  when \<open>done\<close> returns, and throws (\<open>Inl\<close>) what \<open>done\<close> throws.
\<close>

definition constructed ::
  "oid \<Rightarrow> (jsval option \<times> world) option \<Rightarrow> ((jsval + oid) \<times> world) option" where
  "constructed d r =
     (case r of
        None \<Rightarrow> None
      | Some (Some e, w) \<Rightarrow> Some (Inl e, w)
      | Some (None, w) \<Rightarrow> Some (Inr d, w))"

definition Observable_empty :: "nat \<Rightarrow> world \<Rightarrow> ((jsval + oid) \<times> world) option" where
  "Observable_empty n w =
     (let (d, w1) = Observable_new w in constructed d (done_sig n d w1))"

definition fromArray :: "nat \<Rightarrow> jsval list \<Rightarrow> world \<Rightarrow> ((jsval + oid) \<times> world) option" where
  "fromArray n array w =
     (let (d, w1) = Observable_new w
      in case fold (\<lambda>obj acc. case acc of None \<Rightarrow> None | Some w2 \<Rightarrow> trigger n d obj w2)
                array (Some w1) of
           None \<Rightarrow> None
         | Some w3 \<Rightarrow> constructed d (done_sig n d w3))"

definition just :: "nat \<Rightarrow> jsval \<Rightarrow> world \<Rightarrow> ((jsval + oid) \<times> world) option" where
  "just n val w =
     (let (d, w1) = Observable_new w
      in case trigger n d val w1 of
           None \<Rightarrow> None
         | Some w2 \<Rightarrow> constructed d (done_sig n d w2))"

text \<open>
  \<open>then(action)\<close> of Observable: the action runs when the observable terminates, or
  at once if it already has; then what it throws is thrown by \<open>then\<close> itself.
\<close>

definition then_observable :: "oid \<Rightarrow> action \<Rightarrow> world \<Rightarrow> (jsval + pid) \<times> world" where
  "then_observable this act w =
     (if isDone w this then
        (case run_action act w of
           (Inl e, w1) \<Rightarrow> (Inl e, w1)
         | (Inr v, w1) \<Rightarrow> (let (p, w2) = new_promise (Fulfilled v) w1 in (Inr p, w2)))
      else (let (p, w1) = new_promise Pending w
            in (Inr p, callbacks_push this
                     \<lparr>listener = EmptyListener, resolve = ThenResolve p act,
                      reject = PromiseReject p\<rparr> w1)))"

subsection \<open>subscribe and the combinators built on it\<close>

text \<open>
  The executors handed to \<open>subscribe\<close>: that of \<open>firstN\<close> (holding the cell of
  \<open>n\<close>) and that of \<open>withTimeout\<close> (holding \<open>timeoutMs\<close>).
\<close>

datatype executor = FirstNExecutor nat | WithTimeoutExecutor nat

definition setTimeout :: "rejecter \<Rightarrow> jsval \<Rightarrow> nat \<Rightarrow> world \<Rightarrow> world" where
  "setTimeout f arg ms w = w\<lparr>timers := timers w @ [(clock w + ms, f, arg)]\<rparr>"

text \<open>What the executor returns, and what running it does.\<close>

fun executor_listener :: "executor \<Rightarrow> oid \<Rightarrow> nat \<Rightarrow> oid \<Rightarrow> inner_listener option" where
  "executor_listener (FirstNExecutor c) this index d = Some (FirstNListener c this index d)"
| "executor_listener (WithTimeoutExecutor ms) this index d = None"

fun run_executor :: "executor \<Rightarrow> oid \<Rightarrow> nat \<Rightarrow> oid \<Rightarrow> world \<Rightarrow> world" where
  "run_executor (FirstNExecutor c) this index d w = w"
| "run_executor (WithTimeoutExecutor ms) this index d w =
     setTimeout (UnsubscribeFail this index d) ERROR_TIMEOUT ms w"

text \<open>
  The executor of the observable that \<open>subscribe\<close> constructs after its guard. It
  reads \<open>this._callbacks!.length\<close>, which throws a TypeError when the field is
  undefined.
\<close>

definition subscribe_executor :: "oid \<Rightarrow> executor \<Rightarrow> oid \<Rightarrow> world \<Rightarrow> jsval option \<times> world" where
  "subscribe_executor this ex d w =
     (if \<not> callbacks_defined (observables w ! this) then (Some (ErrorObj ''TypeError''), w)
      else (let index = length (callbacks_array (observables w ! this));
                w1 = callbacks_push this
                       \<lparr>listener = PreTrigger d (executor_listener ex this index d),
                        resolve = UnsubscribeDone this index d,
                        reject = UnsubscribeFail this index d\<rparr> w
            in (None, run_executor ex this index d w1)))"

text \<open>
  The guard of \<open>subscribe\<close> is \<open>if (this.isDone)\<close>: it tests the method itself,
  a function object, and does not call it.
\<close>

definition isDone_method :: jsval where
  "isDone_method = FunctionRef ''isDone''"

definition subscribe :: "nat \<Rightarrow> oid \<Rightarrow> executor \<Rightarrow> world \<Rightarrow> ((jsval + oid) \<times> world) option" where
  "subscribe k this ex w =
     (if truthy isDone_method then Observable_empty k w
      else (let (d, w1) = Observable_new w
            in case subscribe_executor this ex d w1 of
                 (Some e, w2) \<Rightarrow> Some (Inl e, w2)
               | (None, w2) \<Rightarrow> Some (Inr d, w2)))"

definition withTimeout :: "nat \<Rightarrow> oid \<Rightarrow> nat \<Rightarrow> world \<Rightarrow> ((jsval + oid) \<times> world) option" where
  "withTimeout k this timeoutMs w = subscribe k this (WithTimeoutExecutor timeoutMs) w"

definition firstN :: "nat \<Rightarrow> oid \<Rightarrow> int \<Rightarrow> world \<Rightarrow> ((jsval + oid) \<times> world) option" where
  "firstN k this n w =
     (if n \<le> 0 then Observable_empty k w
      else (let (c, w1) = new_var (Num n) w in subscribe k this (FirstNExecutor c) w1))"

text \<open>
  Time passes by \<open>ms\<close>: the timers that are due fire in the order of their due time,
  each as a task of its own, followed by the microtasks it queued.
\<close>

definition advance :: "nat \<Rightarrow> nat \<Rightarrow> nat \<Rightarrow> world \<Rightarrow> world option" where
  "advance k n ms w =
     (let now = clock w + ms;
          due = filter (\<lambda>t. fst t \<le> now) (timers w);
          w1 = w\<lparr>clock := now, timers := filter (\<lambda>t. \<not> fst t \<le> now) (timers w)\<rparr>
      in fold (\<lambda>(t, f, arg) acc. case acc of
                 None \<Rightarrow> None
               | Some w2 \<Rightarrow>
                   (case call_reject n f arg w2 of
                      None \<Rightarrow> None
                    | Some w3 \<Rightarrow> run_microtasks k n w3))
           (sort_key fst due) (Some w1))"

section \<open>Subscription\<close>

text \<open>
  The constructor of Subscription passes an arrow function to \<open>super\<close>, and the
  constructor of Observable calls it before \<open>super\<close> returns. The arrow function
  starts with \<open>this.dispose = done\<close>; its \<open>this\<close> is that of the constructor of
  the derived class, which is bound only when \<open>super\<close> has returned, and reading it
  earlier throws a ReferenceError. The binding is an argument here: \<open>None\<close> while
  \<open>super\<close> runs.
\<close>

definition Subscription_super_executor ::
  "oid option \<Rightarrow> (oid \<Rightarrow> world \<Rightarrow> jsval option \<times> world) \<Rightarrow> oid \<Rightarrow> world \<Rightarrow> jsval option \<times> world" where
  "Subscription_super_executor this_binding executor d w =
     (case this_binding of
        None \<Rightarrow> (Some (ErrorObj ''ReferenceError''), w)
      | Some this \<Rightarrow>
          executor d (w\<lparr>observables := (observables w)[this := (observables w ! this)
                         \<lparr>dispose := Some d\<rparr>]\<rparr>))"

definition Subscription_new ::
  "(oid \<Rightarrow> world \<Rightarrow> jsval option \<times> world) \<Rightarrow> world \<Rightarrow> (jsval + oid) \<times> world" where
  "Subscription_new executor w =
     (let (d, w1) = Observable_new w
      in case Subscription_super_executor None executor d w1 of
           (Some e, w2) \<Rightarrow> (Inl e, w2)
         | (None, w2) \<Rightarrow> (Inr d, w2))"

text \<open>
  The executor of \<open>fromListener\<close> reads the constant \<open>sub\<close> that the enclosing
  \<open>new Subscription(...)\<close> is still computing; reading a constant before it is
  initialised throws a ReferenceError. The binding is an argument here as well.
\<close>

definition fromListener_executor ::
  "oid option \<Rightarrow> nat \<Rightarrow> string \<Rightarrow> oid \<Rightarrow> world \<Rightarrow> jsval option \<times> world" where
  "fromListener_executor sub element event d w =
     (let w1 = addEventListener element event (TriggerArrow d) w
      in case sub of
           None \<Rightarrow> (Some (ErrorObj ''ReferenceError''), w1)
         | Some s \<Rightarrow>
             (case then_observable s (RemoveEventListener element event (TriggerFn d)) w1 of
                (Inl e, w2) \<Rightarrow> (Some e, w2)
              | (Inr p, w2) \<Rightarrow> (None, w2)))"

definition fromListener :: "nat \<Rightarrow> string \<Rightarrow> world \<Rightarrow> (jsval + oid) \<times> world" where
  "fromListener element event w =
     Subscription_new (fromListener_executor None element event) w"

section \<open>The pull adapter\<close>

definition ObservableAsyncIterator_new :: "oid \<Rightarrow> world \<Rightarrow> nat \<times> world" where
  "ObservableAsyncIterator_new observable w =
     (let it = length (iterators w);
          w0 = w\<lparr>iterators := iterators w @
                  [\<lparr>demanded = [], queued = [], done_promise = None\<rparr>]\<rparr>;
          (p, w1) = forEach observable (IteratorListener it) w0;
          (p2, w2) = promise_then p (Some (IteratorDone it)) None w1;
          (p3, w3) = promise_then p2 None (Some (IteratorFail it)) w2
      in (it, w3))"

text \<open>\<open>this.queued.shift()\<close>: \<open>undefined\<close> on an empty array.\<close>

definition queued_shift :: "nat \<Rightarrow> world \<Rightarrow> jsval \<times> world" where
  "queued_shift it w =
     (case queued (iterators w ! it) of
        [] \<Rightarrow> (Undefined, w)
      | q # qs \<Rightarrow> (q, w\<lparr>iterators := (iterators w)[it := (iterators w ! it)\<lparr>queued := qs\<rparr>]\<rparr>))"

definition next_it :: "nat \<Rightarrow> world \<Rightarrow> pid \<times> world" where
  "next_it it w =
     (let (q, w1) = queued_shift it w
      in if truthy q then new_promise (Fulfilled q) w1
         else (case done_promise (iterators w1 ! it) of
                 Some p \<Rightarrow> (p, w1)
               | None \<Rightarrow>
                   (let (p, w2) = new_promise Pending w1
                    in (p, w2\<lparr>iterators := (iterators w2)[it := (iterators w2 ! it)
                                \<lparr>demanded := demanded (iterators w2 ! it) @ [p]\<rparr>]\<rparr>))))"

section \<open>Scenarios\<close>

text \<open>
  The functions and listeners the scenarios use: \<open>x => x * 2\<close>,
  \<open>(a, b) => a + b\<close>, and the listener \<open>o => numbers.push(o)\<close> of the tests,
  which never throws.
\<close>

definition times2 :: "jsval \<Rightarrow> jsval" where
  "times2 x = (case x of Num k \<Rightarrow> Num (k * 2) | _ \<Rightarrow> Undefined)"

definition add :: "jsval \<Rightarrow> jsval \<Rightarrow> jsval" where
  "add a b = (case (a, b) of (Num x, Num y) \<Rightarrow> Num (x + y) | _ \<Rightarrow> Undefined)"

definition never_throws :: "jsval \<Rightarrow> jsval option" where
  "never_throws obj = None"

text \<open>
  The observable of the tests' \<open>getObservable\<close>: its executor only keeps
  \<open>trigger\<close>, \<open>done\<close> and \<open>fail\<close> for the producer to call later. The world
  has one array for a listener to push to; the observable is object \<open>0\<close>.
\<close>

definition producer_world :: world where
  "producer_world = snd (Observable_new (world0\<lparr>arrays := [[]]\<rparr>))"

text \<open>
  A task of the producer ends when its calls have returned or one of them has thrown;
  the microtasks run after it in either case.
\<close>

definition after_task :: "(jsval option \<times> world) option \<Rightarrow> world option" where
  "after_task r = (case r of None \<Rightarrow> None | Some (thrown, w) \<Rightarrow> run_microtasks 8 4 w)"

text \<open>
  \<open>const m = src.map(x => x * 2); m.forEach(o => numbers.push(o));\<close> then the
  producer calls \<open>trigger(1); trigger(2); trigger(3); done();\<close> and the microtasks
  run.
\<close>

definition map_example :: "world option" where
  "map_example =
     (let (d, w2) = map_observable 0 times2 producer_world;
          (p, w3) = forEach d (UserListener never_throws 0) w2
      in after_task (producer_calls 4 0 [Trigger (Num 1), Trigger (Num 2), Trigger (Num 3), Done] w3))"

text \<open>
  \<open>const f = src.filter(x => x % 2 === 0); f.forEach(o => numbers.push(o));\<close>
  then the producer calls \<open>trigger(1); ... trigger(4);\<close> and \<open>done()\<close>, or
  \<open>fail("global")\<close>, and the microtasks run.
\<close>

definition is_even :: "jsval \<Rightarrow> bool" where
  "is_even x = (case x of Num k \<Rightarrow> k mod 2 = 0 | _ \<Rightarrow> False)"

definition filter_example :: "producer_call \<Rightarrow> world option" where
  "filter_example terminal =
     (let (d, w2) = filter_observable 0 is_even producer_world;
          (p, w3) = forEach d (UserListener never_throws 0) w2
      in after_task (producer_calls 4 0 [Trigger (Num 1), Trigger (Num 2), Trigger (Num 3), Trigger (Num 4), terminal] w3))"

text \<open>
  \<open>const r = src.reduce(0, (a, b) => a + b); r.forEach(o => numbers.push(o));\<close>
  then \<open>trigger(1); trigger(2); done();\<close> and the microtasks run.
\<close>

definition reduce_example :: "world option" where
  "reduce_example =
     (case reduce 4 0 (Num 0) add producer_world of
        None \<Rightarrow> None
      | Some (d, w2) \<Rightarrow>
          (let (p, w3) = forEach d (UserListener never_throws 0) w2
           in after_task (producer_calls 4 0 [Trigger (Num 1), Trigger (Num 2), Done] w3)))"

text \<open>
  \<open>const f = src.firstN(2); f.forEach(o => numbers.push(o));\<close>, and then
  \<open>trigger(1); trigger(2); trigger(3); done();\<close> and the microtasks.
\<close>

definition firstN_registered :: "world option" where
  "firstN_registered =
     (case firstN 4 0 2 producer_world of
        None \<Rightarrow> None
      | Some (Inl e, w2) \<Rightarrow> None
      | Some (Inr d, w2) \<Rightarrow> Some (snd (forEach d (UserListener never_throws 0) w2)))"

definition firstN_example :: "world option" where
  "firstN_example =
     (case firstN_registered of
        None \<Rightarrow> None
      | Some w3 \<Rightarrow>
          (after_task (producer_calls 4 0 [Trigger (Num 1), Trigger (Num 2), Trigger (Num 3), Done] w3)))"

text \<open>
  The same calls on the observable that the code after the guard of \<open>subscribe\<close>
  would build: the executor of \<open>subscribe\<close> run directly, with the listener of
  \<open>firstN(2)\<close>, and one more value.
\<close>

definition firstN_past_guard :: "world option" where
  "firstN_past_guard =
     (let (c, w1) = new_var (Num 2) producer_world;
          (d, w2) = Observable_new w1
      in case subscribe_executor 0 (FirstNExecutor c) d w2 of
           (Some e, w3) \<Rightarrow> None
         | (None, w3) \<Rightarrow>
             (let (p, w4) = forEach d (UserListener never_throws 0) w3
              in after_task (producer_calls 8 0 [Trigger (Num 1), Trigger (Num 2), Trigger (Num 3), Trigger (Num 4), Done] w4)))"

text \<open>
  \<open>const t = src.withTimeout(50); t.forEach(o => numbers.push(o));\<close> on a source
  that never terminates; the microtasks run and 50 ms pass.
\<close>

definition withTimeout_example :: "world option" where
  "withTimeout_example =
     (case withTimeout 4 0 50 producer_world of
        None \<Rightarrow> None
      | Some (Inl e, w2) \<Rightarrow> None
      | Some (Inr d, w2) \<Rightarrow>
          (let (p, w3) = forEach d (UserListener never_throws 0) w2
           in case run_microtasks 8 4 w3 of
                None \<Rightarrow> None
              | Some w4 \<Rightarrow> advance 8 4 50 w4))"

definition withTimeout_past_guard :: "world option" where
  "withTimeout_past_guard =
     (let (d, w2) = Observable_new producer_world
      in case subscribe_executor 0 (WithTimeoutExecutor 50) d w2 of
           (Some e, w3) \<Rightarrow> None
         | (None, w3) \<Rightarrow>
             (let (p, w4) = forEach d (UserListener never_throws 0) w3
              in case run_microtasks 8 4 w4 of
                   None \<Rightarrow> None
                 | Some w5 \<Rightarrow> advance 8 4 50 w5))"

text \<open>
  \<open>const it = new ObservableAsyncIterator(src);\<close> the producer calls
  \<open>trigger(0)\<close>, then \<open>const p = it.next();\<close>
\<close>

definition iterator_pulled :: "(pid \<times> world) option" where
  "iterator_pulled =
     (let (it, w2) = ObservableAsyncIterator_new 0 producer_world
      in case trigger 2 0 (Num 0) w2 of
           None \<Rightarrow> None
         | Some w3 \<Rightarrow> Some (next_it it w3))"

text \<open>and then the producer calls \<open>trigger(5)\<close>.\<close>

definition iterator_example :: "(pid \<times> world) option" where
  "iterator_example =
     (case iterator_pulled of
        None \<Rightarrow> None
      | Some (p, w4) \<Rightarrow> map_option (Pair p) (trigger 2 0 (Num 5) w4))"

text \<open>
  \<open>trigger(1); fail("global");\<close> and then \<open>src.forEach(o => numbers.push(o))\<close>.
\<close>

definition failed_world :: "world option" where
  "failed_world =
     map_option snd (producer_calls 2 0 [Trigger (Num 1), Fail (Str ''global'')] producer_world)"

definition forEach_after_fail :: "(pid \<times> world) option" where
  "forEach_after_fail =
     map_option (forEach 0 (UserListener never_throws 0)) failed_world"

text \<open>A world with one event target that has no listeners.\<close>

definition element_world :: world where
  "element_world = world0\<lparr>elements := [[]]\<rparr>"

text \<open>
  What \<open>fromListener\<close> would do if the two bindings it reads were initialised when
  its executor runs, followed by two calls of \<open>dispose\<close>.
\<close>

definition fromListener_bound :: "jsval option \<times> world" where
  "fromListener_bound =
     (let (d, w1) = Observable_new element_world
      in Subscription_super_executor (Some d) (fromListener_executor (Some d) 0 ''click'') d w1)"

definition fromListener_bound_disposed :: "world option" where
  "fromListener_bound_disposed =
     (case done_sig 2 0 (snd fromListener_bound) of
        None \<Rightarrow> None
      | Some (thrown, w) \<Rightarrow> map_option snd (done_sig 2 0 w))"

text \<open>
  \<open>src.then(() => { throw "boom"; }); src.forEach(o => numbers.push(o));\<close> on the
  producer of the tests: promise 0 is that of \<open>then\<close> and promise 1 that of
  \<open>forEach\<close>.
\<close>

definition then_throws_world :: world where
  "then_throws_world =
     (let (t, w1) = then_observable 0 (ThrowAction (Str ''boom'')) producer_world;
          (p, w2) = forEach 0 (UserListener never_throws 0) w1
      in w2)"

text \<open>
  The producer then calls \<open>done()\<close>; and after that call a second \<open>done()\<close>, or
  \<open>trigger(7)\<close>.
\<close>

definition then_throws_done :: "(jsval option \<times> world) option" where
  "then_throws_done = done_sig 2 0 then_throws_world"

definition then_throws_done_again :: "(jsval option \<times> world) option" where
  "then_throws_done_again =
     (case then_throws_done of None \<Rightarrow> None | Some (thrown, w) \<Rightarrow> done_sig 2 0 w)"

definition then_throws_trigger :: "world option" where
  "then_throws_trigger =
     (case then_throws_done of None \<Rightarrow> None | Some (thrown, w) \<Rightarrow> trigger 2 0 (Num 7) w)"

text \<open>The same registrations with the action \<open>() => 5\<close>.\<close>

definition then_returns_world :: world where
  "then_returns_world =
     (let (t, w1) = then_observable 0 (ReturnAction (Num 5)) producer_world;
          (p, w2) = forEach 0 (UserListener never_throws 0) w1
      in w2)"

section \<open>Slots registered by forEach\<close>

text \<open>
  A slot registered by \<open>forEach\<close> settles a promise when it is resolved or
  rejected. \<open>promise_slot\<close> holds of a removed slot and of a slot whose
  \<open>resolve\<close> and \<open>reject\<close> are those of a promise; \<open>resolve_slot\<close> and
  \<open>reject_slot\<close> are what \<open>d.resolve()\<close> and \<open>d.reject(err)\<close> do on such a
  slot.
\<close>

fun promise_slot :: "CallbackItem option \<Rightarrow> bool" where
  "promise_slot None = True"
| "promise_slot (Some cb) =
     ((case resolve cb of PromiseResolve p \<Rightarrow> True | _ \<Rightarrow> False)
      \<and> (case reject cb of PromiseReject p \<Rightarrow> True | _ \<Rightarrow> False))"

fun resolver_promise :: "resolver \<Rightarrow> pid option" where
  "resolver_promise (PromiseResolve p) = Some p"
| "resolver_promise (ThenResolve p act) = None"
| "resolver_promise (UnsubscribeDone s i d) = None"

fun rejecter_promise :: "rejecter \<Rightarrow> pid option" where
  "rejecter_promise (PromiseReject p) = Some p"
| "rejecter_promise (UnsubscribeFail s i d) = None"

fun resolve_slot :: "CallbackItem option \<Rightarrow> world \<Rightarrow> world" where
  "resolve_slot None w = w"
| "resolve_slot (Some cb) w =
     (case resolve cb of
        PromiseResolve p \<Rightarrow> promise_resolve p Undefined w
      | ThenResolve p act \<Rightarrow> w
      | UnsubscribeDone s i d \<Rightarrow> w)"

fun reject_slot :: "jsval \<Rightarrow> CallbackItem option \<Rightarrow> world \<Rightarrow> world" where
  "reject_slot err None w = w"
| "reject_slot err (Some cb) w =
     (case reject cb of
        PromiseReject p \<Rightarrow> promise_reject p err w
      | UnsubscribeFail s i d \<Rightarrow> w)"



section \<open>Consumers registered by forEach\<close>

text \<open>
  A consumer as the tests register it: a listener that throws on some values and pushes
  the others to an array of its own, and the promise \<open>forEach\<close> returned for it.
  \<open>user_item\<close> is the slot \<open>forEach\<close> pushes for it. \<open>deliver\<close> is one pass
  of the loop of \<open>trigger\<close> at such a slot and \<open>deliver_all\<close> the whole loop;
  \<open>survivor\<close> is what is left of a slot after a value; a slot \<open>avoids\<close> an array
  and a promise when it is removed or refers to neither.
\<close>

type_synonym consumer = "(jsval \<Rightarrow> jsval option) \<times> nat \<times> pid"


fun deliver :: "oid \<Rightarrow> jsval \<Rightarrow> nat \<Rightarrow> consumer option \<Rightarrow> world \<Rightarrow> world" where
  "deliver this obj idx None w = w"
| "deliver this obj idx (Some (throws, a, p)) w =
     (case throws obj of
        None \<Rightarrow> array_push a obj w
      | Some e \<Rightarrow> set_callback this idx None (promise_reject p e w))"

fun deliver_all :: "oid \<Rightarrow> jsval \<Rightarrow> nat \<Rightarrow> consumer option list \<Rightarrow> world \<Rightarrow> world" where
  "deliver_all this obj k [] w = w"
| "deliver_all this obj k (c # cs) w = deliver_all this obj (Suc k) cs (deliver this obj k c w)"





section \<open>Terminal observables\<close>

lemma callbacks_undefine_done: "isDone w this \<Longrightarrow> callbacks_undefine this w = w"
proof -
  assume d: "isDone w this"
  have "(observables w ! this)\<lparr>callbacks_defined := False\<rparr> = observables w ! this"
    using d by (cases "observables w ! this") (simp add: isDone_def)
  then show ?thesis by (simp add: callbacks_undefine_def)
qed

lemma trigger_done: "isDone w this \<Longrightarrow> trigger (Suc n) this obj w = Some w"
  by (simp add: isDone_def)

lemma done_sig_done: "isDone w this \<Longrightarrow> done_sig (Suc n) this w = Some (None, w)"
  using callbacks_undefine_done [of w this] by (simp add: isDone_def)

lemma fail_sig_done: "isDone w this \<Longrightarrow> fail_sig (Suc n) this err w = Some w"
  using callbacks_undefine_done [of w this] by (simp add: isDone_def)

lemma producer_calls_done:
  "isDone w this \<Longrightarrow> producer_calls (Suc n) this cs w = Some (None, w)"
proof (induction cs)
  case Nil
  then show ?case by simp
next
  case (Cons c cs)
  then have "producer_step (Suc n) this c w = Some (None, w)"
    by (cases c) (simp_all only: producer_step.simps trigger_done done_sig_done fail_sig_done
        option.map)
  with Cons show ?case by simp
qed

lemma isDone_callbacks_undefine:
  "this < length (observables w) \<Longrightarrow> isDone (callbacks_undefine this w) this"
  by (simp add: isDone_def callbacks_undefine_def)

lemma length_callbacks_undefine:
  "length (observables (callbacks_undefine this w)) = length (observables w)"
  by (simp add: callbacks_undefine_def)

lemma done_sig_isDone:
  assumes "done_sig (Suc n) this w0 = Some (None, w)" and "this < length (observables w)"
  shows "isDone w this"
proof -
  from assms(1) obtain w' where "w = callbacks_undefine this w'"
    by (auto simp only: done_sig.simps split: option.splits prod.splits)
  with assms(2) show ?thesis
    by (simp add: isDone_callbacks_undefine length_callbacks_undefine)
qed

lemma fail_sig_isDone:
  assumes "fail_sig (Suc n) this err w0 = Some w" and "this < length (observables w)"
  shows "isDone w this"
proof -
  from assms(1) obtain w' where "w = callbacks_undefine this w'"
    by (auto simp only: fail_sig.simps split: option.splits)
  with assms(2) show ?thesis
    by (simp add: isDone_callbacks_undefine length_callbacks_undefine)
qed

lemma forEach_done:
  "isDone w this \<Longrightarrow>
   forEach this each w =
     (length (promises w),
      w\<lparr>promises := promises w @ [\<lparr>p_state = Fulfilled Undefined, p_reactions = []\<rparr>]\<rparr>)"
  by (simp add: forEach_def new_promise_def)

lemma trigger_fresh:
  "callbacks_defined (observables w ! d) \<Longrightarrow> callbacks_array (observables w ! d) = [] \<Longrightarrow>
   trigger (Suc n) d obj w = Some w"
  by simp

lemma fold_trigger_fresh:
  "callbacks_defined (observables w ! d) \<Longrightarrow> callbacks_array (observables w ! d) = [] \<Longrightarrow>
   fold (\<lambda>obj acc. case acc of None \<Rightarrow> None | Some w2 \<Rightarrow> trigger (Suc n) d obj w2) array (Some w)
   = Some w"
  by (induction array) (simp_all del: trigger.simps add: trigger_fresh)

lemma done_sig_fresh:
  "callbacks_array (observables w ! d) = [] \<Longrightarrow>
   done_sig (Suc n) d w = Some (None, callbacks_undefine d w)"
  by simp

text \<open>
  C10. \<open>Observable.fromArray(a)\<close> and \<open>Observable.just(v)\<close> make their calls of
  \<open>trigger\<close> and \<open>done\<close> inside the constructor, on an observable that has no
  callback yet. With any positive call depth both return, and what they return is the
  world they started in with one more observable, whose registry is empty and already
  undefined: no value reached anyone, \<open>isDone()\<close> is true, and a \<open>forEach\<close>
  registered on it afterwards only allocates an already fulfilled promise, so its
  listener is neither called nor kept.
\<close>

theorem factories_already_terminal:
  "let d = length (observables w);
       w' = w\<lparr>observables := observables w @
               [\<lparr>callbacks_array = [], callbacks_defined = False, dispose = None\<rparr>]\<rparr>
   in fromArray (Suc n) array w = Some (Inr d, w')
    \<and> just (Suc n) val w = Some (Inr d, w')
    \<and> isDone w' d
    \<and> (\<forall>each. forEach d each w' =
          (length (promises w),
           w'\<lparr>promises := promises w @ [\<lparr>p_state = Fulfilled Undefined, p_reactions = []\<rparr>]\<rparr>))"
proof -
  define d where "d = length (observables w)"
  define w1 where "w1 = snd (Observable_new w)"
  define w' where "w' = w\<lparr>observables := observables w @
               [\<lparr>callbacks_array = [], callbacks_defined = False, dispose = None\<rparr>]\<rparr>"
  have new: "Observable_new w = (d, w1)"
    by (simp add: Observable_new_def d_def w1_def)
  have live: "callbacks_defined (observables w1 ! d)"
    and empty: "callbacks_array (observables w1 ! d) = []"
    by (simp_all add: w1_def d_def Observable_new_def)
  have undef: "callbacks_undefine d w1 = w'"
    by (simp add: callbacks_undefine_def w1_def w'_def d_def Observable_new_def)
  have a: "fromArray (Suc n) array w = Some (Inr d, w')"
    unfolding fromArray_def new
    by (simp del: trigger.simps done_sig.simps
        add: fold_trigger_fresh [OF live empty] done_sig_fresh [OF empty] undef constructed_def)
  have "trigger (Suc n) d val w1 = Some w1"
    by (rule trigger_fresh [OF live empty])
  then have j: "just (Suc n) val w = Some (Inr d, w')"
    unfolding just_def new
    by (simp del: trigger.simps done_sig.simps add: done_sig_fresh [OF empty] undef
        constructed_def)
  have t: "isDone w' d"
    by (simp add: isDone_def w'_def d_def)
  have f: "forEach d each w' =
          (length (promises w),
           w'\<lparr>promises := promises w @ [\<lparr>p_state = Fulfilled Undefined, p_reactions = []\<rparr>]\<rparr>)"
    for each
    using forEach_done [OF t, of each] by (simp add: w'_def)
  show ?thesis
    using a j t f unfolding Let_def d_def w'_def by blast
qed

section \<open>The terminal signal\<close>

lemma observables_settle [simp]: "observables (settle p st w) = observables w"
  by (simp add: settle_def)

lemma arrays_settle [simp]: "arrays (settle p st w) = arrays w"
  by (simp add: settle_def)

lemma length_promises_settle [simp]: "length (promises (settle p st w)) = length (promises w)"
  by (simp add: settle_def)

lemma observables_resolve_slot [simp]: "observables (resolve_slot cb w) = observables w"
  by (cases cb) (simp_all add: promise_resolve_def split: resolver.splits)

lemma arrays_resolve_slot [simp]: "arrays (resolve_slot cb w) = arrays w"
  by (cases cb) (simp_all add: promise_resolve_def split: resolver.splits)

lemma observables_reject_slot [simp]: "observables (reject_slot err cb w) = observables w"
  by (cases cb) (simp_all add: promise_reject_def split: rejecter.splits)

lemma arrays_reject_slot [simp]: "arrays (reject_slot err cb w) = arrays w"
  by (cases cb) (simp_all add: promise_reject_def split: rejecter.splits)

text \<open>
  A loop over the indices of an array that the loop does not change and in which no
  pass throws; \<open>ret\<close> is the result of a pass that returned.
\<close>

lemma fold_indices:
  fixes w :: world
  assumes step: "\<And>i (w1 :: world). i < length arr \<Longrightarrow>
                   callbacks_array (observables w1 ! this) = arr \<Longrightarrow>
                   body i (ret w1) = ret (f (arr ! i) w1)"
      and pres: "\<And>x (w1 :: world). observables (f x w1) = observables w1"
      and arr: "callbacks_array (observables w ! this) = arr"
  shows "fold body [0..<length arr] (ret w) = ret (fold f arr w)"
proof -
  have gen: "\<forall>i\<in>set is. i < length arr \<Longrightarrow> callbacks_array (observables w1 ! this) = arr \<Longrightarrow>
             fold body is (ret w1) = ret (fold (\<lambda>i. f (arr ! i)) is w1)" for "is" and w1 :: world
  proof (induction "is" arbitrary: w1)
    case Nil
    then show ?case by simp
  next
    case (Cons i "is")
    have "callbacks_array (observables (f (arr ! i) w1) ! this) = arr"
      using Cons.prems(2) by (simp add: pres)
    with Cons show ?case by (simp add: step)
  qed
  have "fold (\<lambda>i. f (arr ! i)) [0..<length arr] w = fold f (map (nth arr) [0..<length arr]) w"
    by (simp add: fold_map comp_def)
  also have "\<dots> = fold f arr w"
    by (simp add: map_nth)
  finally show ?thesis
    using gen [of "[0..<length arr]" w] arr by simp
qed

lemma call_resolve_promise_slot:
  "promise_slot (Some cb) \<Longrightarrow>
   call_resolve n (resolve cb) w = Some (None, resolve_slot (Some cb) w)"
  by (cases "resolve cb") simp_all

lemma call_reject_promise_slot:
  "promise_slot (Some cb) \<Longrightarrow> call_reject n (reject cb) err w = Some (reject_slot err (Some cb) w)"
  by (cases "reject cb") simp_all

lemma done_sig_promise_slots:
  assumes live: "callbacks_defined (observables w ! this)"
      and slots: "list_all promise_slot (callbacks_array (observables w ! this))"
  shows "done_sig (Suc n) this w =
           Some (None, callbacks_undefine this
                         (fold resolve_slot (callbacks_array (observables w ! this)) w))"
proof -
  define arr where "arr = callbacks_array (observables w ! this)"
  have "fold (\<lambda>idx acc. case acc of
                      None \<Rightarrow> None
                    | Some (Some e, w1) \<Rightarrow> Some (Some e, w1)
                    | Some (None, w1) \<Rightarrow>
                        (case callbacks_array (observables w1 ! this) ! idx of
                           None \<Rightarrow> Some (None, w1)
                         | Some d \<Rightarrow> call_resolve n (resolve d) w1))
          [0..<length arr] (Some (None, w)) = Some (None, fold resolve_slot arr w)"
  proof (rule fold_indices [where ret = "\<lambda>w. Some (None, w)"])
    fix i and w1 :: world
    assume i: "i < length arr" and a: "callbacks_array (observables w1 ! this) = arr"
    from slots i have "promise_slot (arr ! i)"
      by (simp add: arr_def list_all_length)
    then show "(case Some (None, w1) of
                      None \<Rightarrow> None
                    | Some (Some e, w1) \<Rightarrow> Some (Some e, w1)
                    | Some (None, w1) \<Rightarrow>
                        (case callbacks_array (observables w1 ! this) ! i of
                           None \<Rightarrow> Some (None, w1)
                         | Some d \<Rightarrow> call_resolve n (resolve d) w1))
               = Some (None, resolve_slot (arr ! i) w1)"
      using a
      by (cases "arr ! i")
         (simp_all add: call_resolve_promise_slot del: promise_slot.simps(2) resolve_slot.simps(2))
  qed (simp_all add: arr_def)
  then show ?thesis
    using live by (simp add: arr_def)
qed

lemma fail_sig_promise_slots:
  assumes live: "callbacks_defined (observables w ! this)"
      and slots: "list_all promise_slot (callbacks_array (observables w ! this))"
  shows "fail_sig (Suc n) this err w =
           Some (callbacks_undefine this
                   (fold (reject_slot err) (callbacks_array (observables w ! this)) w))"
proof -
  define arr where "arr = callbacks_array (observables w ! this)"
  have "fold (\<lambda>idx acc. case acc of
                      None \<Rightarrow> None
                    | Some w1 \<Rightarrow>
                        (case callbacks_array (observables w1 ! this) ! idx of
                           None \<Rightarrow> Some w1
                         | Some d \<Rightarrow> call_reject n (reject d) err w1))
          [0..<length arr] (Some w) = Some (fold (reject_slot err) arr w)"
  proof (rule fold_indices [where ret = Some])
    fix i and w1 :: world
    assume i: "i < length arr" and a: "callbacks_array (observables w1 ! this) = arr"
    from slots i have "promise_slot (arr ! i)"
      by (simp add: arr_def list_all_length)
    then show "(case Some w1 of
                      None \<Rightarrow> None
                    | Some w1 \<Rightarrow>
                        (case callbacks_array (observables w1 ! this) ! i of
                           None \<Rightarrow> Some w1
                         | Some d \<Rightarrow> call_reject n (reject d) err w1))
               = Some (reject_slot err (arr ! i) w1)"
      using a
      by (cases "arr ! i")
         (simp_all add: call_reject_promise_slot del: promise_slot.simps(2) reject_slot.simps(2))
  qed (simp_all add: arr_def)
  then show ?thesis
    using live by (simp add: arr_def)
qed

lemma p_state_settle:
  "p_state (promises (settle q st w) ! p) =
     (if p = q \<and> q < length (promises w) \<and> p_state (promises w ! q) = Pending then st
      else p_state (promises w ! p))"
  by (cases "q < length (promises w)") (auto simp: settle_def nth_list_update list_update_beyond)

lemma p_state_resolve_slot:
  "p_state (promises (resolve_slot cb w) ! p) =
     (if (\<exists>c. cb = Some c \<and> resolver_promise (resolve c) = Some p) \<and> p < length (promises w)
         \<and> p_state (promises w ! p) = Pending
      then Fulfilled Undefined else p_state (promises w ! p))"
proof (cases cb)
  case None
  then show ?thesis by simp
next
  case (Some c)
  show ?thesis
  proof (cases "resolve c")
    case (PromiseResolve q)
    with Some show ?thesis by (auto simp: promise_resolve_def p_state_settle)
  next
    case (UnsubscribeDone s i d)
    with Some show ?thesis by simp
  next
    case (ThenResolve q act)
    with Some show ?thesis by simp
  qed
qed

lemma length_promises_resolve_slot [simp]:
  "length (promises (resolve_slot cb w)) = length (promises w)"
proof (cases cb)
  case None
  then show ?thesis by simp
next
  case (Some c)
  show ?thesis
    by (cases "resolve c") (simp_all add: Some promise_resolve_def)
qed

lemma p_state_reject_slot:
  "p_state (promises (reject_slot err cb w) ! p) =
     (if (\<exists>c. cb = Some c \<and> rejecter_promise (reject c) = Some p) \<and> p < length (promises w)
         \<and> p_state (promises w ! p) = Pending
      then Rejected err else p_state (promises w ! p))"
proof (cases cb)
  case None
  then show ?thesis by simp
next
  case (Some c)
  then show ?thesis
    by (cases "reject c") (auto simp: promise_reject_def p_state_settle)
qed

lemma length_promises_reject_slot [simp]:
  "length (promises (reject_slot err cb w)) = length (promises w)"
  by (cases cb) (simp_all add: promise_reject_def split: rejecter.splits)

lemma observables_fold_resolve_slot [simp]: "observables (fold resolve_slot arr w) = observables w"
  by (induction arr arbitrary: w) simp_all

lemma arrays_fold_resolve_slot [simp]: "arrays (fold resolve_slot arr w) = arrays w"
  by (induction arr arbitrary: w) simp_all

lemma observables_fold_reject_slot [simp]:
  "observables (fold (reject_slot err) arr w) = observables w"
  by (induction arr arbitrary: w) simp_all

lemma arrays_fold_reject_slot [simp]: "arrays (fold (reject_slot err) arr w) = arrays w"
  by (induction arr arbitrary: w) simp_all

lemma fold_resolve_slot_keeps:
  "p_state (promises w ! p) = Fulfilled Undefined \<Longrightarrow>
   p_state (promises (fold resolve_slot arr w) ! p) = Fulfilled Undefined"
  by (induction arr arbitrary: w) (simp_all add: p_state_resolve_slot)

lemma fold_resolve_slot_settles:
  "Some c \<in> set arr \<Longrightarrow> resolver_promise (resolve c) = Some p \<Longrightarrow> p < length (promises w) \<Longrightarrow>
   p_state (promises w ! p) = Pending \<Longrightarrow>
   p_state (promises (fold resolve_slot arr w) ! p) = Fulfilled Undefined"
proof (induction arr arbitrary: w)
  case Nil
  then show ?case by simp
next
  case (Cons x arr)
  show ?case
  proof (cases "p_state (promises (resolve_slot x w) ! p) = Fulfilled Undefined")
    case True
    then show ?thesis by (simp add: fold_resolve_slot_keeps)
  next
    case False
    with Cons.prems have pend: "p_state (promises (resolve_slot x w) ! p) = Pending"
      and nx: "x \<noteq> Some c"
      by (auto simp: p_state_resolve_slot split: if_splits)
    with Cons.prems have "Some c \<in> set arr" by auto
    from Cons.IH [OF this Cons.prems(2) _ pend] Cons.prems(3) show ?thesis by simp
  qed
qed

lemma fold_reject_slot_keeps:
  "p_state (promises w ! p) = Rejected err \<Longrightarrow>
   p_state (promises (fold (reject_slot err) arr w) ! p) = Rejected err"
  by (induction arr arbitrary: w) (simp_all add: p_state_reject_slot)

lemma fold_reject_slot_settles:
  "Some c \<in> set arr \<Longrightarrow> rejecter_promise (reject c) = Some p \<Longrightarrow> p < length (promises w) \<Longrightarrow>
   p_state (promises w ! p) = Pending \<Longrightarrow>
   p_state (promises (fold (reject_slot err) arr w) ! p) = Rejected err"
proof (induction arr arbitrary: w)
  case Nil
  then show ?case by simp
next
  case (Cons x arr)
  show ?case
  proof (cases "p_state (promises (reject_slot err x w) ! p) = Rejected err")
    case True
    then show ?thesis by (simp add: fold_reject_slot_keeps)
  next
    case False
    with Cons.prems have pend: "p_state (promises (reject_slot err x w) ! p) = Pending"
      and nx: "x \<noteq> Some c"
      by (auto simp: p_state_reject_slot split: if_splits)
    with Cons.prems have "Some c \<in> set arr" by auto
    from Cons.IH [OF this Cons.prems(2) _ pend] Cons.prems(3) show ?thesis by simp
  qed
qed

lemma fold_resolve_slot_frame:
  "\<forall>c. Some c \<in> set arr \<longrightarrow> resolver_promise (resolve c) \<noteq> Some p \<Longrightarrow>
   p_state (promises (fold resolve_slot arr w) ! p) = p_state (promises w ! p)"
  by (induction arr arbitrary: w) (auto simp: p_state_resolve_slot)

lemma fold_reject_slot_frame:
  "\<forall>c. Some c \<in> set arr \<longrightarrow> rejecter_promise (reject c) \<noteq> Some p \<Longrightarrow>
   p_state (promises (fold (reject_slot err) arr w) ! p) = p_state (promises w ! p)"
  by (induction arr arbitrary: w) (auto simp: p_state_reject_slot)

lemma promises_callbacks_undefine [simp]: "promises (callbacks_undefine this w) = promises w"
  by (simp add: callbacks_undefine_def)

lemma arrays_callbacks_undefine [simp]: "arrays (callbacks_undefine this w) = arrays w"
  by (simp add: callbacks_undefine_def)

text \<open>
  Let an observable be active with slots registered by \<open>forEach\<close> only. With any
  positive call depth \<open>done()\<close> returns without throwing; afterwards the registry
  is undefined, no array a listener pushes to has changed, the promise of every
  registered slot that was pending is fulfilled, and the state of every promise that
  belongs to no registered slot is what it was. \<open>fail(err)\<close> does the same and
  rejects those promises with \<open>err\<close>. After either, every sequence of
  \<open>trigger\<close>, \<open>done\<close> and \<open>fail\<close> calls returns the world unchanged.
\<close>

lemma terminal_signal_forEach_slots:
  assumes live: "callbacks_defined (observables w ! this)"
      and alloc: "this < length (observables w)"
      and slots: "list_all promise_slot (callbacks_array (observables w ! this))"
  shows "(\<exists>w'. done_sig (Suc n) this w = Some (None, w') \<and> isDone w' this \<and> arrays w' = arrays w
            \<and> (\<forall>c p. Some c \<in> set (callbacks_array (observables w ! this))
                      \<and> resolver_promise (resolve c) = Some p
                      \<and> p < length (promises w) \<and> p_state (promises w ! p) = Pending
                    \<longrightarrow> p_state (promises w' ! p) = Fulfilled Undefined)
            \<and> (\<forall>p. (\<forall>c. Some c \<in> set (callbacks_array (observables w ! this))
                          \<longrightarrow> resolver_promise (resolve c) \<noteq> Some p)
                    \<longrightarrow> p_state (promises w' ! p) = p_state (promises w ! p))
            \<and> (\<forall>m calls. producer_calls (Suc m) this calls w' = Some (None, w')))
       \<and> (\<exists>w'. fail_sig (Suc n) this err w = Some w' \<and> isDone w' this \<and> arrays w' = arrays w
            \<and> (\<forall>c p. Some c \<in> set (callbacks_array (observables w ! this))
                      \<and> rejecter_promise (reject c) = Some p
                      \<and> p < length (promises w) \<and> p_state (promises w ! p) = Pending
                    \<longrightarrow> p_state (promises w' ! p) = Rejected err)
            \<and> (\<forall>p. (\<forall>c. Some c \<in> set (callbacks_array (observables w ! this))
                          \<longrightarrow> rejecter_promise (reject c) \<noteq> Some p)
                    \<longrightarrow> p_state (promises w' ! p) = p_state (promises w ! p))
            \<and> (\<forall>m calls. producer_calls (Suc m) this calls w' = Some (None, w')))"
proof (intro conjI)
  define wd where
    "wd = callbacks_undefine this (fold resolve_slot (callbacks_array (observables w ! this)) w)"
  have ret: "done_sig (Suc n) this w = Some (None, wd)"
    unfolding wd_def by (rule done_sig_promise_slots [OF live slots])
  have fin: "isDone wd this"
    unfolding wd_def using alloc by (intro isDone_callbacks_undefine) simp
  have arr: "arrays wd = arrays w"
    by (simp add: wd_def)
  have settled: "p_state (promises wd ! p) = Fulfilled Undefined"
    if "Some c \<in> set (callbacks_array (observables w ! this))"
      and "resolver_promise (resolve c) = Some p"
      and "p < length (promises w)" and "p_state (promises w ! p) = Pending" for c p
    using that by (simp add: wd_def fold_resolve_slot_settles)
  have frame: "p_state (promises wd ! p) = p_state (promises w ! p)"
    if "\<forall>c. Some c \<in> set (callbacks_array (observables w ! this))
            \<longrightarrow> resolver_promise (resolve c) \<noteq> Some p" for p
    using that by (simp add: wd_def fold_resolve_slot_frame)
  have absorb: "producer_calls (Suc m) this calls wd = Some (None, wd)" for m calls
    by (rule producer_calls_done [OF fin])
  show "\<exists>w'. done_sig (Suc n) this w = Some (None, w') \<and> isDone w' this \<and> arrays w' = arrays w
            \<and> (\<forall>c p. Some c \<in> set (callbacks_array (observables w ! this))
                      \<and> resolver_promise (resolve c) = Some p
                      \<and> p < length (promises w) \<and> p_state (promises w ! p) = Pending
                    \<longrightarrow> p_state (promises w' ! p) = Fulfilled Undefined)
            \<and> (\<forall>p. (\<forall>c. Some c \<in> set (callbacks_array (observables w ! this))
                          \<longrightarrow> resolver_promise (resolve c) \<noteq> Some p)
                    \<longrightarrow> p_state (promises w' ! p) = p_state (promises w ! p))
            \<and> (\<forall>m calls. producer_calls (Suc m) this calls w' = Some (None, w'))"
    using ret fin arr settled frame absorb by blast
next
  define wf where
    "wf = callbacks_undefine this (fold (reject_slot err) (callbacks_array (observables w ! this)) w)"
  have ret: "fail_sig (Suc n) this err w = Some wf"
    unfolding wf_def by (rule fail_sig_promise_slots [OF live slots])
  have fin: "isDone wf this"
    unfolding wf_def using alloc by (intro isDone_callbacks_undefine) simp
  have arr: "arrays wf = arrays w"
    by (simp add: wf_def)
  have settled: "p_state (promises wf ! p) = Rejected err"
    if "Some c \<in> set (callbacks_array (observables w ! this))"
      and "rejecter_promise (reject c) = Some p"
      and "p < length (promises w)" and "p_state (promises w ! p) = Pending" for c p
    using that by (simp add: wf_def fold_reject_slot_settles)
  have frame: "p_state (promises wf ! p) = p_state (promises w ! p)"
    if "\<forall>c. Some c \<in> set (callbacks_array (observables w ! this))
            \<longrightarrow> rejecter_promise (reject c) \<noteq> Some p" for p
    using that by (simp add: wf_def fold_reject_slot_frame)
  have absorb: "producer_calls (Suc m) this calls wf = Some (None, wf)" for m calls
    by (rule producer_calls_done [OF fin])
  show "\<exists>w'. fail_sig (Suc n) this err w = Some w' \<and> isDone w' this \<and> arrays w' = arrays w
            \<and> (\<forall>c p. Some c \<in> set (callbacks_array (observables w ! this))
                      \<and> rejecter_promise (reject c) = Some p
                      \<and> p < length (promises w) \<and> p_state (promises w ! p) = Pending
                    \<longrightarrow> p_state (promises w' ! p) = Rejected err)
            \<and> (\<forall>p. (\<forall>c. Some c \<in> set (callbacks_array (observables w ! this))
                          \<longrightarrow> rejecter_promise (reject c) \<noteq> Some p)
                    \<longrightarrow> p_state (promises w' ! p) = p_state (promises w ! p))
            \<and> (\<forall>m calls. producer_calls (Suc m) this calls w' = Some (None, w'))"
    using ret fin arr settled frame absorb by blast
qed

text \<open>
  C4. A \<open>then\<close> whose action throws \<open>"boom"\<close> and a \<open>forEach\<close> are registered
  on an active observable, both promises pending, and the producer calls \<open>done()\<close>.
  The call throws \<open>"boom"\<close> out of the loop over the slots: neither promise is
  settled and the registry is still defined, so \<open>isDone()\<close> is false. Nothing is
  absorbing afterwards: a second \<open>done()\<close> runs the action again and throws again,
  and \<open>trigger(7)\<close> still reaches the listener of the \<open>forEach\<close>.
\<close>

theorem done_aborted_by_throwing_action:
  "(isDone then_throws_world 0, map p_state (promises then_throws_world), arrays then_throws_world)
   = (False, [Pending, Pending], [[]])
   \<and> map_option (\<lambda>(thrown, w). (thrown, isDone w 0, map p_state (promises w), arrays w))
        then_throws_done
     = Some (Some (Str ''boom''), False, [Pending, Pending], [[]])
   \<and> map_option (\<lambda>(thrown, w). (thrown, isDone w 0, map p_state (promises w), arrays w))
        then_throws_done_again
     = Some (Some (Str ''boom''), False, [Pending, Pending], [[]])
   \<and> map_option (\<lambda>w. (isDone w 0, map p_state (promises w), arrays w)) then_throws_trigger
     = Some (False, [Pending, Pending], [[Num 7]])"
  by code_simp

text \<open>
  \<open>fail(err)\<close> calls only the \<open>reject\<close> of a slot, which runs no action: on the
  same registry it rejects both promises and the registry becomes undefined.
\<close>

lemma fail_with_throwing_action:
  "map_option (\<lambda>w. (isDone w 0, map p_state (promises w)))
     (fail_sig 2 0 (Str ''global'') then_throws_world)
   = Some (True, [Rejected (Str ''global''), Rejected (Str ''global'')])"
  by code_simp

text \<open>
  With the action \<open>() => 5\<close>, \<open>done()\<close> returns: the promise of the \<open>then\<close> is
  fulfilled with 5, that of the \<open>forEach\<close> with \<open>undefined\<close>, and the observable
  is done.
\<close>

lemma done_with_returning_action:
  "map_option (\<lambda>(thrown, w). (thrown, isDone w 0, map p_state (promises w)))
     (done_sig 2 0 then_returns_world)
   = Some (None, True, [Fulfilled (Num 5), Fulfilled Undefined])"
  by code_simp

section \<open>forEach on a terminal observable\<close>

text \<open>
  C2, as the code has it. After \<open>done()\<close> or \<open>fail(err)\<close> has returned on an
  observable without throwing, the observable is done, and a \<open>forEach\<close> registered on it only
  allocates a promise that is already fulfilled: the listener is neither called nor
  kept, and the promise is fulfilled after \<open>fail(err)\<close> as well, since the
  observable keeps no record of \<open>err\<close>. Whatever the producer calls afterwards
  changes nothing, so the listener is never called later either.
\<close>

theorem forEach_after_terminal:
  assumes "done_sig (Suc n) this w0 = Some (None, w) \<or> fail_sig (Suc n) this err w0 = Some w"
      and "this < length (observables w)"
  shows "isDone w this
       \<and> forEach this each w =
           (length (promises w),
            w\<lparr>promises := promises w @ [\<lparr>p_state = Fulfilled Undefined, p_reactions = []\<rparr>]\<rparr>)
       \<and> (\<forall>m calls. producer_calls (Suc m) this calls (snd (forEach this each w))
                       = Some (None, snd (forEach this each w)))"
proof -
  from assms have d: "isDone w this"
    by (auto intro: done_sig_isDone fail_sig_isDone)
  then have f: "forEach this each w =
           (length (promises w),
            w\<lparr>promises := promises w @ [\<lparr>p_state = Fulfilled Undefined, p_reactions = []\<rparr>]\<rparr>)"
    by (simp add: forEach_done)
  from d have "isDone (snd (forEach this each w)) this"
    by (simp add: f isDone_def)
  then have "producer_calls (Suc m) this calls (snd (forEach this each w))
             = Some (None, snd (forEach this each w))" for m calls
    by (rule producer_calls_done)
  with d f show ?thesis
    by blast
qed

text \<open>The theorem at the producer of the tests, after \<open>fail("global")\<close>.\<close>

theorem forEach_after_terminal_witness:
  "fail_sig (Suc 0) 0 (Str ''global'') producer_world = Some (callbacks_undefine 0 producer_world)
   \<and> 0 < length (observables (callbacks_undefine 0 producer_world))
   \<and> isDone (callbacks_undefine 0 producer_world) 0
   \<and> forEach 0 (UserListener never_throws 0) (callbacks_undefine 0 producer_world) =
       (length (promises (callbacks_undefine 0 producer_world)),
        (callbacks_undefine 0 producer_world)
          \<lparr>promises := promises (callbacks_undefine 0 producer_world) @
             [\<lparr>p_state = Fulfilled Undefined, p_reactions = []\<rparr>]\<rparr>)"
proof -
  have f: "fail_sig (Suc 0) 0 (Str ''global'') producer_world
           = Some (callbacks_undefine 0 producer_world)"
    by (simp add: producer_world_def Observable_new_def world0_def)
  have a: "0 < length (observables (callbacks_undefine 0 producer_world))"
    by (simp add: length_callbacks_undefine producer_world_def Observable_new_def world0_def)
  from forEach_after_terminal [OF disjI2 [OF f] a, of "UserListener never_throws 0"] f a
  show ?thesis
    by simp
qed

text \<open>
  C2, read literally: after \<open>trigger(1); fail("global");\<close> a \<open>forEach\<close>
  would return a promise rejected with \<open>"global"\<close>. The promise it returns is
  fulfilled, and nothing was pushed to the array of its listener.
\<close>

theorem forEach_after_fail_resolves:
  "map_option (\<lambda>(p, w). (p_state (promises w ! p), arrays w)) forEach_after_fail
     = Some (Fulfilled Undefined, [[]])
   \<and> map_option (\<lambda>(p, w). p_state (promises w ! p)) forEach_after_fail
     \<noteq> Some (Rejected (Str ''global''))"
  by code_simp

section \<open>The combinators on concrete streams\<close>

text \<open>
  C3. The source emits 1, 2, 3 and is done; the consumer of \<open>map(x => x * 2)\<close> has
  observed 2, 4, 6. The source (object 0) is done and the promise of the \<open>forEach\<close>
  that \<open>map\<close> registered on it is fulfilled, but nothing is chained to that promise:
  with the microtask queue empty the mapped observable (object 1) is not done and the
  promise of its consumer is still pending.
\<close>

theorem map_does_not_forward_done:
  "map_option (\<lambda>w. (arrays w, isDone w 0, isDone w 1, map p_state (promises w), microtasks w))
     map_example
   = Some ([[Num 2, Num 4, Num 6]], True, False, [Fulfilled Undefined, Pending], [])"
  by code_simp

text \<open>
  \<open>filter\<close> chains \<open>.then(done).catch(fail)\<close> to its \<open>forEach\<close>: the consumer
  of the filtered observable (object 1, promises 0 to 2 being those of \<open>filter\<close>)
  observes 2 and 4, and once the microtasks have run the filtered observable is done
  and the consumer's promise is fulfilled, or rejected with the error of the source.
\<close>

lemma filter_forwards_done_and_fail:
  "map_option (\<lambda>w. (arrays w, isDone w 1, p_state (promises w ! 3), microtasks w))
     (filter_example Done)
   = Some ([[Num 2, Num 4]], True, Fulfilled Undefined, [])
   \<and> map_option (\<lambda>w. (arrays w, isDone w 1, p_state (promises w ! 3), microtasks w))
     (filter_example (Fail (Str ''global'')))
   = Some ([[Num 2, Num 4]], True, Rejected (Str ''global''), [])"
  by code_simp

text \<open>
  C8. The source emits 1, 2 and is done; the consumer of \<open>reduce(0, (a, b) => a + b)\<close>
  has observed 1 and 3, and the reduced observable (object 1) is done. The seed 0 was
  triggered inside the constructor, when no consumer could be registered, and reached
  no one.
\<close>

theorem reduce_seed_not_observed:
  "map_option (\<lambda>w. (arrays w, isDone w 1, microtasks w)) reduce_example
   = Some ([[Num 1, Num 3]], True, [])"
  by code_simp

text \<open>
  The guard of \<open>subscribe\<close> always holds, so \<open>subscribe\<close> returns
  \<open>Observable.empty()\<close> whatever the state of the source and whatever the executor.
\<close>

lemma subscribe_returns_empty:
  "subscribe k this ex w = Observable_empty k w"
  by (simp add: subscribe_def isDone_method_def)

text \<open>
  So with any positive call depth \<open>subscribe\<close> returns the world it started in with
  one more observable, which is done: the source has no new slot, no timer is
  scheduled, and the executor has not run.
\<close>

lemma Observable_empty_result:
  "Observable_empty (Suc k) w =
     Some (Inr (length (observables w)),
           w\<lparr>observables := observables w @
               [\<lparr>callbacks_array = [], callbacks_defined = False, dispose = None\<rparr>]\<rparr>)"
  by (simp add: Observable_empty_def Observable_new_def callbacks_undefine_def constructed_def)

lemma subscribe_result:
  "subscribe (Suc k) this ex w =
     Some (Inr (length (observables w)),
           w\<lparr>observables := observables w @
               [\<lparr>callbacks_array = [], callbacks_defined = False, dispose = None\<rparr>]\<rparr>)"
  by (simp only: subscribe_returns_empty Observable_empty_result)

text \<open>
  C1. \<open>firstN(2)\<close> of an active source (object 0) is an observable (object 1) that
  is done when \<open>firstN\<close> returns, so the promise of the consumer registered on it is
  fulfilled at once; after the source has emitted 1, 2, 3 and is done, the array of that
  consumer is still empty.
\<close>

theorem firstN_observes_nothing:
  "map_option (\<lambda>w. (isDone w 0, isDone w 1, map p_state (promises w))) firstN_registered
     = Some (False, True, [Fulfilled Undefined])
   \<and> map_option arrays firstN_example = Some [[]]"
  by code_simp

text \<open>
  Past the guard, the listener of \<open>firstN(2)\<close> tests \<open>n-- === 0\<close> after
  \<open>preTrigger\<close> has forwarded the value: of 1, 2, 3, 4 the consumer observes 1, 2
  and 3 before the derived observable (object 1) is done.
\<close>

lemma firstN_past_guard_one_more:
  "map_option (\<lambda>w. (arrays w, isDone w 1)) firstN_past_guard
   = Some ([[Num 1, Num 2, Num 3]], True)"
  by code_simp

text \<open>
  C6. \<open>withTimeout(50)\<close> of a source that never terminates (object 0) is an
  observable (object 1) that is done when \<open>withTimeout\<close> returns. No timer was
  scheduled; after 50 ms the source is still active and the promise of the consumer of
  the derived observable is fulfilled, not rejected with the Timeout error.
\<close>

theorem withTimeout_never_times_out:
  "map_option (\<lambda>w. (arrays w, isDone w 0, isDone w 1, map p_state (promises w), timers w, clock w))
     withTimeout_example
   = Some ([[]], False, True, [Fulfilled Undefined], [], 50)"
  by code_simp

text \<open>
  Past the guard the timer is scheduled, and after 50 ms it rejects the consumer with
  the Timeout error.
\<close>

lemma withTimeout_past_guard_times_out:
  "map_option (\<lambda>w. (isDone w 0, isDone w 1, map p_state (promises w), timers w))
     withTimeout_past_guard
   = Some (False, True, [Rejected ERROR_TIMEOUT], [])"
  by code_simp

text \<open>
  The timer's action is \<open>unsubscribeFail\<close>, which does nothing once the registry of
  the source is undefined.
\<close>

lemma timeout_action_after_termination:
  "isDone w this \<Longrightarrow> call_reject (Suc n) (UnsubscribeFail this index d) ERROR_TIMEOUT w = Some w"
  by (simp add: isDone_def subscribed_def)

text \<open>
  C7. The source triggers 0 before the first \<open>next()\<close>. The call takes 0 off the
  queue, finds it falsy, and registers a pending pull (promise 3) instead of returning
  it; the pull is then resolved with the value triggered next, 5. The value 0 is never
  returned.
\<close>

theorem iterator_drops_zero:
  "map_option (\<lambda>(p, w). (p_state (promises w ! p), queued (iterators w ! 0),
       demanded (iterators w ! 0))) iterator_pulled
     = Some (Pending, [], [3])
   \<and> map_option (\<lambda>(p, w). (p_state (promises w ! p), queued (iterators w ! 0),
       demanded (iterators w ! 0))) iterator_example
     = Some (Fulfilled (Num 5), [], [])"
  by code_simp

text \<open>
  A queued value that is truthy is returned by \<open>next()\<close> at once, in a promise
  fulfilled with it, and leaves the queue.
\<close>

lemma next_it_queued_truthy:
  assumes "queued (iterators w ! it) = q # qs" and "truthy q"
  shows "next_it it w =
           (length (promises w),
            w\<lparr>iterators := (iterators w)[it := (iterators w ! it)\<lparr>queued := qs\<rparr>],
              promises := promises w @ [\<lparr>p_state = Fulfilled q, p_reactions = []\<rparr>]\<rparr>)"
  using assms by (simp add: next_it_def queued_shift_def new_promise_def)

text \<open>
  Removing \<open>trigger\<close> from an event target leaves the arrow function around it
  attached, whatever else the target holds.
\<close>

lemma removeEventListener_keeps_arrow:
  assumes "el < length (elements w)"
  shows "(ev, TriggerArrow d)
         \<in> set (elements (removeEventListener el ev (TriggerFn d)
                   (addEventListener el ev (TriggerArrow d) w)) ! el)"
  using assms by (simp add: removeEventListener_def addEventListener_def)

text \<open>
  C9. \<open>Subscription.fromListener(element, "click")\<close> throws a ReferenceError from
  the first statement of the arrow function given to \<open>super\<close>, before
  \<open>addEventListener\<close> is reached: the element has no listener. Were the two
  bindings initialised, the executor would add the arrow function
  \<open>cb => trigger(cb)\<close>, and \<open>dispose()\<close> would call
  \<open>removeEventListener(event, trigger)\<close> with a different function: after two
  calls of \<open>dispose\<close> the observable is done and the listener is still attached.
\<close>

theorem fromListener_never_removes:
  "fst (fromListener 0 ''click'' element_world) = Inl (ErrorObj ''ReferenceError'')
   \<and> elements (snd (fromListener 0 ''click'' element_world)) = [[]]
   \<and> fst fromListener_bound = None
   \<and> elements (snd fromListener_bound) = [[(''click'', TriggerArrow 0)]]
   \<and> map_option (\<lambda>w. (isDone w 0, elements w)) fromListener_bound_disposed
       = Some (True, [[(''click'', TriggerArrow 0)]])"
  by code_simp

section \<open>A listener that throws\<close>

lemma defined_set_callback [simp]:
  "callbacks_defined (observables (set_callback this k v w) ! this)
   = callbacks_defined (observables w ! this)"
  by (cases "this < length (observables w)") (simp_all add: set_callback_def list_update_beyond)

lemma length_observables_set_callback [simp]:
  "length (observables (set_callback this k v w)) = length (observables w)"
  by (simp add: set_callback_def)



lemma length_array_set_callback [simp]:
  "length (callbacks_array (observables (set_callback this k v w) ! this))
   = length (callbacks_array (observables w ! this))"
  by (cases "this < length (observables w)") (simp_all add: set_callback_def list_update_beyond)

lemma arrays_set_callback [simp]: "arrays (set_callback this k v w) = arrays w"
  by (simp add: set_callback_def)

lemma promises_set_callback [simp]: "promises (set_callback this k v w) = promises w"
  by (simp add: set_callback_def)

lemma observables_array_push [simp]: "observables (array_push a obj w) = observables w"
  by (simp add: array_push_def)

lemma promises_array_push [simp]: "promises (array_push a obj w) = promises w"
  by (simp add: array_push_def)

lemma length_arrays_array_push [simp]: "length (arrays (array_push a obj w)) = length (arrays w)"
  by (simp add: array_push_def)

lemma defined_deliver [simp]:
  "callbacks_defined (observables (deliver this obj k c w) ! this)
   = callbacks_defined (observables w ! this)"
  by (cases "(this, obj, k, c, w)" rule: deliver.cases)
     (auto simp: promise_reject_def split: option.splits)

lemma length_observables_deliver [simp]:
  "length (observables (deliver this obj k c w)) = length (observables w)"
  by (cases "(this, obj, k, c, w)" rule: deliver.cases)
     (auto simp: promise_reject_def split: option.splits)

lemma length_array_deliver [simp]:
  "length (callbacks_array (observables (deliver this obj k c w) ! this))
   = length (callbacks_array (observables w ! this))"
  by (cases "(this, obj, k, c, w)" rule: deliver.cases)
     (auto simp: promise_reject_def split: option.splits)


lemma length_arrays_deliver [simp]:
  "length (arrays (deliver this obj k c w)) = length (arrays w)"
  by (cases "(this, obj, k, c, w)" rule: deliver.cases)
     (auto simp: promise_reject_def split: option.splits)

lemma length_promises_deliver [simp]:
  "length (promises (deliver this obj k c w)) = length (promises w)"
  by (cases "(this, obj, k, c, w)" rule: deliver.cases)
     (auto simp: promise_reject_def split: option.splits)






lemma length_observables_deliver_all [simp]:
  "length (observables (deliver_all this obj k cs w)) = length (observables w)"
  by (induction cs arbitrary: k w) simp_all

lemma length_array_deliver_all [simp]:
  "length (callbacks_array (observables (deliver_all this obj k cs w) ! this))
   = length (callbacks_array (observables w ! this))"
  by (induction cs arbitrary: k w) simp_all

lemma defined_deliver_all [simp]:
  "callbacks_defined (observables (deliver_all this obj k cs w) ! this)
   = callbacks_defined (observables w ! this)"
  by (induction cs arbitrary: k w) simp_all

lemma length_arrays_deliver_all [simp]:
  "length (arrays (deliver_all this obj k cs w)) = length (arrays w)"
  by (induction cs arbitrary: k w) simp_all

lemma length_promises_deliver_all [simp]:
  "length (promises (deliver_all this obj k cs w)) = length (promises w)"
  by (induction cs arbitrary: k w) simp_all





















end
